theory Spec2Isabelle
  imports Complex_Main
begin

section \<open>JavaScript values\<close>

text \<open>
  The helpers of the chat client test their arguments for truthiness (\<open>!x\<close>, \<open>x ? a : b\<close>,
  \<open>a || b\<close>) and compare them with strict equality (\<open>===\<close>, \<open>!==\<close>).  The values that
  reach them are strings, booleans, numbers (whole numbers such as timestamps in milliseconds),
  \<open>null\<close> and \<open>undefined\<close>.  Strict equality on these values is equality of the datatype.
\<close>

datatype jsval = JUndefined | JNull | JBool bool | JStr string | JNum int

fun truthy :: "jsval \<Rightarrow> bool" where
  "truthy JUndefined = False"
| "truthy JNull = False"
| "truthy (JBool b) = b"
| "truthy (JStr s) = (s \<noteq> [])"
| "truthy (JNum n) = (n \<noteq> 0)"

text \<open>\<open>a || b\<close> is \<open>a\<close> when \<open>a\<close> is truthy and \<open>b\<close> otherwise.\<close>

definition js_or :: "jsval \<Rightarrow> jsval \<Rightarrow> jsval" where
  "js_or a b = (if truthy a then a else b)"

text \<open>An object is its fields; reading a field the object does not have gives \<open>undefined\<close>.\<close>

type_synonym js_object = "string \<rightharpoonup> jsval"

definition field :: "js_object \<Rightarrow> string \<Rightarrow> jsval" where
  "field obj k = (case obj k of None \<Rightarrow> JUndefined | Some v \<Rightarrow> v)"


section \<open>OTP generator and validator (otpGenerator.js)\<close>

text \<open>
  A \<open>Date\<close> object is its time value: milliseconds since the epoch, or \<open>NaN\<close> for an invalid
  date, which is \<open>None\<close> here.  \<open>new Date(v)\<close> clips a time value beyond 8.64e15 ms to
  \<open>NaN\<close>.
\<close>

type_synonym date = "int option"

definition timeClip :: "int \<Rightarrow> date" where
  "timeClip v = (if \<bar>v\<bar> \<le> 8640000000000000 then Some v else None)"









text \<open>\<open>getOTPExpiration\<close>: \<open>new Date(now.getTime() + 5 * 60 * 1000)\<close>, where \<open>now\<close> is the clock
  reading \<open>new Date()\<close>, an argument of the model.\<close>

definition getOTPExpiration :: "int \<Rightarrow> date" where
  "getOTPExpiration now = timeClip (now + 5 * 60 * 1000)"

text \<open>
  The \<open>expiresAt\<close> argument of \<open>verifyOTP\<close> is whatever the user document holds:
  \<^item> \<open>Timestamp d\<close>: an object with a \<open>toDate\<close> member (a Firestore timestamp); \<open>d\<close> is the
    \<open>Date\<close> that \<open>toDate()\<close> returns;
  \<^item> \<open>DateObj d\<close>: a \<open>Date\<close>;
  \<^item> \<open>Prim v\<close>: a primitive value, among them strings, \<open>null\<close> and \<open>undefined\<close>; none of them
    has a \<open>toDate\<close> member and none is an instance of \<open>Date\<close>.
\<close>

datatype expiry = Timestamp date | DateObj date | Prim jsval

record otp_result =
  valid :: bool
  message :: string

text \<open>\<open>now > expirationDate\<close> compares the two time values as numbers; a comparison with
  \<open>NaN\<close> is false.  \<open>now\<close> is \<open>new Date()\<close>, always a valid date.\<close>

definition date_gt :: "int \<Rightarrow> date \<Rightarrow> bool" where
  "date_gt now d = (case d of None \<Rightarrow> False | Some t \<Rightarrow> t < now)"

text \<open>
  \<open>verifyOTP(enteredOTP, storedOTP, expiresAt)\<close>.  Two things the function reads from its
  environment are arguments of the model: \<open>parseDate\<close>, the time value of \<open>new Date(s)\<close> for a
  string \<open>s\<close> (the date parser of the JavaScript engine), and \<open>now\<close>, the clock.
\<close>

definition verifyOTP ::
  "(string \<Rightarrow> date) \<Rightarrow> int \<Rightarrow> jsval \<Rightarrow> jsval \<Rightarrow> expiry \<Rightarrow> otp_result" where
  "verifyOTP parseDate now enteredOTP storedOTP expiresAt =
     (if \<not> truthy enteredOTP \<or> \<not> truthy storedOTP then
        \<lparr>valid = False, message = ''OTP is required''\<rparr>
      else if enteredOTP \<noteq> storedOTP then
        \<lparr>valid = False, message = ''Invalid OTP''\<rparr>
      else
        (case (case expiresAt of
                 Timestamp d \<Rightarrow> Some d
               | DateObj d \<Rightarrow> Some d
               | Prim (JStr s) \<Rightarrow> Some (parseDate s)
               | Prim _ \<Rightarrow> None) of
           None \<Rightarrow> \<lparr>valid = False, message = ''Invalid OTP expiration''\<rparr>
         | Some expirationDate \<Rightarrow>
             if date_gt now expirationDate then
               \<lparr>valid = False, message = ''OTP has expired''\<rparr>
             else
               \<lparr>valid = True, message = ''OTP verified successfully''\<rparr>))"


section \<open>Documents of the store\<close>

text \<open>
  The client keeps its data in collections of a hosted document store: \<open>users\<close>, \<open>projects\<close>,
  \<open>userProjects\<close> (the memberships) and \<open>qrInvitations\<close>.  Documents have no schema, so a field
  that the code tests or compares is a \<open>jsval\<close>.  Field names carry a prefix where two kinds of
  document use the same name.
\<close>

text \<open>The data of a user document.  \<open>ud_userProjects\<close> is the field \<open>userProjects\<close> that
  \<open>isProjectAdmin\<close> of the role helpers reads: a list of objects, when present.\<close>

record user_data =
  name :: string
  phoneNumber :: string
  globalRole :: jsval
  isApproved :: bool
  approvedAt :: "int option"
  ud_userProjects :: "js_object list option"

text \<open>A membership: a document of the collection \<open>userProjects\<close>.\<close>

record membership =
  m_userId :: jsval
  m_projectId :: jsval
  m_role :: jsval
  m_isActive :: jsval
  m_addedAt :: jsval

text \<open>An invitation (a document of \<open>qrInvitations\<close>) and the entries of its pending list.\<close>

record signup =
  su_userId :: jsval
  su_timestamp :: "int option"

record invitation =
  inv_projectId :: jsval
  pendingSignups :: "signup list option"
  isPending :: jsval

text \<open>
  A collection read by document id is a map from ids (non-empty strings) to documents.  The
  memberships are only added with generated ids and read through queries, so they are the list
  of documents in the order a query returns them.  A project document is read as a whole
  (\<open>...projectDoc.data()\<close>), so it is an object.
\<close>

record store =
  users :: "string \<rightharpoonup> user_data"
  projects :: "string \<rightharpoonup> js_object"
  userProjects :: "membership list"
  qrInvitations :: "string \<rightharpoonup> invitation"

text \<open>
  The operations of the store that the code calls, with the behaviour the store documents:
  \<open>update\<close> of a document that does not exist fails with \<open>not-found\<close> and writes nothing,
  \<open>delete\<close> succeeds whether or not the document exists, \<open>add\<close> always creates a new document,
  \<open>get\<close> of a missing document gives a snapshot whose \<open>exists\<close> is false (\<open>None\<close>).
\<close>

datatype fs_error = NotFound | Unavailable | InvalidArgument

definition doc_update ::
  "('k \<rightharpoonup> 'v) \<Rightarrow> 'k \<Rightarrow> ('v \<Rightarrow> 'v) \<Rightarrow> fs_error + ('k \<rightharpoonup> 'v)" where
  "doc_update coll k f =
     (case coll k of None \<Rightarrow> Inl NotFound | Some d \<Rightarrow> Inr (coll(k \<mapsto> f d)))"

definition doc_delete :: "('k \<rightharpoonup> 'v) \<Rightarrow> 'k \<Rightarrow> ('k \<rightharpoonup> 'v)" where
  "doc_delete coll k = coll(k := None)"

definition coll_add :: "'v list \<Rightarrow> 'v \<Rightarrow> 'v list" where
  "coll_add coll d = coll @ [d]"

text \<open>
  A read of the role helpers either fails (the promise of \<open>get()\<close> is rejected) or is served
  from the current store.
\<close>

datatype backend = Failing fs_error | Serving store

definition query_userProjects ::
  "backend \<Rightarrow> (membership \<Rightarrow> bool) \<Rightarrow> fs_error + membership list" where
  "query_userProjects be cond =
     (case be of Failing err \<Rightarrow> Inl err | Serving s \<Rightarrow> Inr (filter cond (userProjects s)))"


section \<open>Role helpers (roleHelper.js)\<close>

definition isSuperAdmin :: "user_data option \<Rightarrow> bool" where
  "isSuperAdmin userData =
     (case userData of None \<Rightarrow> False | Some ud \<Rightarrow> globalRole ud = JStr ''superadmin'')"

text \<open>\<open>isProjectAdmin\<close> ends with \<open>project && project.role === 'project_admin'\<close>: it returns
  \<open>undefined\<close> when \<open>find\<close> finds no entry.\<close>

definition isProjectAdmin :: "user_data option \<Rightarrow> jsval \<Rightarrow> jsval" where
  "isProjectAdmin userData projectId =
     (case userData of
        None \<Rightarrow> JBool False
      | Some ud \<Rightarrow>
          if \<not> truthy projectId then JBool False
          else if isSuperAdmin userData then JBool True
          else
            (case find (\<lambda>p. field p ''projectId'' = projectId)
                    (case ud_userProjects ud of None \<Rightarrow> [] | Some l \<Rightarrow> l) of
               None \<Rightarrow> JUndefined
             | Some project \<Rightarrow> JBool (field project ''role'' = JStr ''project_admin'')))"

text \<open>
  The loop of \<open>getUserProjects\<close> over the memberships found.  \<open>.doc(projectId)\<close> names the
  project document for a non-empty string, makes a reference with a fresh id (a document that
  does not exist) for a falsy value, and throws for any other value.  A project that exists and
  is active gives the entry \<open>{id, ...projectDoc.data(), userRole, addedAt}\<close>.
\<close>

fun collectProjects :: "store \<Rightarrow> membership list \<Rightarrow> fs_error + js_object list" where
  "collectProjects s [] = Inr []"
| "collectProjects s (m # ms) =
     (if \<not> truthy (m_projectId m) then collectProjects s ms
      else
        (case m_projectId m of
           JStr pid \<Rightarrow>
             (case collectProjects s ms of
                Inl err \<Rightarrow> Inl err
              | Inr rest \<Rightarrow>
                  (case projects s pid of
                     None \<Rightarrow> Inr rest
                   | Some pdata \<Rightarrow>
                       if truthy (field pdata ''isActive'')
                       then Inr ((([''id'' \<mapsto> JStr pid] ++ pdata)
                                   (''userRole'' \<mapsto> m_role m, ''addedAt'' \<mapsto> m_addedAt m)) # rest)
                       else Inr rest))
         | _ \<Rightarrow> Inl InvalidArgument))"

text \<open>
  \<open>getUserProjects(userId)\<close>.  The last step sorts the entries with the comparator
  \<open>a.name.localeCompare(b.name)\<close>; the sort of the JavaScript engine with that comparator is the
  argument \<open>sortByName\<close> (it can throw, when a name is not a string).  A list of at most one
  entry is returned as it is, without a call of the comparator.  Every failure ends in the
  \<open>catch\<close> branch, which logs it and returns the empty list.
\<close>

definition getUserProjects ::
  "(js_object list \<Rightarrow> fs_error + js_object list) \<Rightarrow> backend \<Rightarrow> jsval \<Rightarrow> js_object list" where
  "getUserProjects sortByName be userId =
     (if \<not> truthy userId then []
      else
        (case be of
           Failing err \<Rightarrow> []
         | Serving s \<Rightarrow>
             (case collectProjects s
                     (filter (\<lambda>m. m_userId m = userId \<and> m_isActive m = JBool True) (userProjects s)) of
                Inl err \<Rightarrow> []
              | Inr ps \<Rightarrow>
                  if length ps \<le> 1 then ps
                  else (case sortByName ps of Inl err \<Rightarrow> [] | Inr sortedProjects \<Rightarrow> sortedProjects))))"

text \<open>\<open>getUserRoleInProject(userId, projectId)\<close>: the role field of the first active membership
  of the pair, \<open>null\<close> when there is none, and \<open>null\<close> again in the \<open>catch\<close> branch, which logs
  the error.\<close>

definition getUserRoleInProject :: "backend \<Rightarrow> jsval \<Rightarrow> jsval \<Rightarrow> jsval" where
  "getUserRoleInProject be userId projectId =
     (if \<not> truthy userId \<or> \<not> truthy projectId then JNull
      else
        (case query_userProjects be
                (\<lambda>m. m_userId m = userId \<and> m_projectId m = projectId \<and> m_isActive m = JBool True) of
           Inl err \<Rightarrow> JNull
         | Inr docs \<Rightarrow> (case docs of [] \<Rightarrow> JNull | d # _ \<Rightarrow> m_role d)))"

text \<open>\<open>hasAccessToProject(userId, projectId, userData = null)\<close>.\<close>

definition hasAccessToProject :: "backend \<Rightarrow> jsval \<Rightarrow> jsval \<Rightarrow> user_data option \<Rightarrow> bool" where
  "hasAccessToProject be userId projectId userData =
     (if \<not> truthy userId \<or> \<not> truthy projectId then False
      else if userData \<noteq> None \<and> isSuperAdmin userData then True
      else
        (case query_userProjects be
                (\<lambda>m. m_userId m = userId \<and> m_projectId m = projectId \<and> m_isActive m = JBool True) of
           Inl err \<Rightarrow> False
         | Inr docs \<Rightarrow> docs \<noteq> []))"


section \<open>The projects of the signed-in user (AuthContext)\<close>

text \<open>
  The authentication context gives the screens \<open>userData\<close> and \<open>userProjects\<close>.  When a user
  signs in it sets \<open>userProjects\<close> to the result of \<open>getUserProjects\<close>, and to the empty list for
  a SuperAdmin.
\<close>

definition authUserProjects ::
  "(js_object list \<Rightarrow> fs_error + js_object list) \<Rightarrow> backend \<Rightarrow> user_data \<Rightarrow> jsval \<Rightarrow> js_object list"
  where
  "authUserProjects sortByName be userData uid =
     (if \<not> isSuperAdmin (Some userData) then getUserProjects sortByName be uid else [])"


section \<open>Posting in a chat room (ChatRoomScreen.js)\<close>

record chat_group =
  isChannel :: jsval
  g_projectId :: jsval

text \<open>
  The three constants at the head of the screen.  \<open>userData\<close>, \<open>userProjects\<close> and \<open>group\<close> come
  from the context and the caller and may be absent, and the code reads them with \<open>?.\<close>:
  \<open>userProjects?.some(...)\<close> is \<open>undefined\<close> for an absent list, \<open>group?.projectId\<close> is
  \<open>undefined\<close> for an absent group.
\<close>

definition chat_isProjectAdmin :: "js_object list option \<Rightarrow> chat_group option \<Rightarrow> jsval" where
  "chat_isProjectAdmin userProjects' grp =
     (case userProjects' of
        None \<Rightarrow> JUndefined
      | Some ups \<Rightarrow>
          JBool (list_ex (\<lambda>up. field up ''projectId''
                                 = (case grp of None \<Rightarrow> JUndefined | Some g \<Rightarrow> g_projectId g)
                              \<and> field up ''role'' = JStr ''project_admin'') ups))"

definition chat_isSuperAdmin :: "user_data option \<Rightarrow> jsval" where
  "chat_isSuperAdmin userData =
     JBool ((case userData of None \<Rightarrow> JUndefined | Some ud \<Rightarrow> globalRole ud) = JStr ''superadmin'')"

definition canSendMessages ::
  "user_data option \<Rightarrow> js_object list option \<Rightarrow> chat_group option \<Rightarrow> jsval" where
  "canSendMessages userData userProjects' grp =
     (if truthy (case grp of None \<Rightarrow> JUndefined | Some g \<Rightarrow> isChannel g)
      then js_or (chat_isProjectAdmin userProjects' grp) (chat_isSuperAdmin userData)
      else JBool True)"


section \<open>Approving and rejecting signups (PendingApprovalsScreen.js)\<close>

text \<open>
  An entry of the list of pending users: the data of the user document together with the id of
  the user document, the id of the invitation and the project of the invitation (\<open>null\<close> for a
  company-wide invitation).
\<close>

record pending_user = user_data +
  pu_id :: string
  qrId :: string
  pu_projectId :: jsval

text \<open>What the screen shows and logs.\<close>

datatype ui_event =
  Alert string string
| ConsoleError string fs_error
| ConsoleLog string string

text \<open>\<open>(qrData.pendingSignups || []).filter(signup => signup.userId !== user.id)\<close>\<close>

definition updatedPendingSignups :: "invitation \<Rightarrow> string \<Rightarrow> signup list" where
  "updatedPendingSignups qrData uid =
     filter (\<lambda>sg. su_userId sg \<noteq> JStr uid)
       (case pendingSignups qrData of None \<Rightarrow> [] | Some l \<Rightarrow> l)"

text \<open>The last step of both transitions: read the invitation and, when it exists, write the
  filtered pending list and the recomputed flag.\<close>

definition removeFromPending :: "pending_user \<Rightarrow> store \<Rightarrow> fs_error + store" where
  "removeFromPending user s =
     (case qrInvitations s (qrId user) of
        None \<Rightarrow> Inr s
      | Some qrData \<Rightarrow>
          (case doc_update (qrInvitations s) (qrId user)
                  (\<lambda>q. q\<lparr>pendingSignups := Some (updatedPendingSignups qrData (pu_id user)),
                         isPending := JBool (length (updatedPendingSignups qrData (pu_id user)) > 0)\<rparr>) of
             Inl err \<Rightarrow> Inl err
           | Inr qrs \<Rightarrow> Inr (s\<lparr>qrInvitations := qrs\<rparr>)))"

text \<open>
  \<open>approveUser(user)\<close>.  \<open>now\<close> is the server timestamp of the writes.  The result is what the
  screen shows and logs, and the store after the call.  The three steps are separate writes:
  a step that fails leaves the writes before it in place and skips the rest; the \<open>catch\<close> logs
  the error and shows the failure alert.
\<close>

definition approveUser :: "int \<Rightarrow> pending_user \<Rightarrow> store \<Rightarrow> ui_event list \<times> store" where
  "approveUser now user s =
     (case doc_update (users s) (pu_id user) (\<lambda>d. d\<lparr>isApproved := True, approvedAt := Some now\<rparr>) of
        Inl err \<Rightarrow>
          ([ConsoleError ''Error approving user:'' err, Alert ''Error'' ''Failed to approve user''], s)
      | Inr us \<Rightarrow>
          let s1 = s\<lparr>users := us\<rparr>;
              s2 = (if truthy (pu_projectId user)
                    then s1\<lparr>userProjects := coll_add (userProjects s1)
                            \<lparr>m_userId = JStr (pu_id user), m_projectId = pu_projectId user,
                             m_role = JStr ''user'', m_isActive = JBool True,
                             m_addedAt = JNum now\<rparr>\<rparr>
                    else s1)
          in (case removeFromPending user s2 of
                Inl err \<Rightarrow>
                  ([ConsoleError ''Error approving user:'' err,
                    Alert ''Error'' ''Failed to approve user''], s2)
              | Inr s3 \<Rightarrow> ([Alert ''Success'' (name user @ '' has been approved!'')], s3)))"

text \<open>\<open>rejectUser(user)\<close>: deletes the user document, logs, and updates the invitation.\<close>

definition rejectUser :: "pending_user \<Rightarrow> store \<Rightarrow> ui_event list \<times> store" where
  "rejectUser user s =
     (let s1 = s\<lparr>users := doc_delete (users s) (pu_id user)\<rparr>
      in (case removeFromPending user s1 of
            Inl err \<Rightarrow>
              ([ConsoleLog ''User removed from Firestore:'' (pu_id user),
                ConsoleError ''Error rejecting user:'' err,
                Alert ''Error'' ''Failed to reject user''], s1)
          | Inr s2 \<Rightarrow>
              ([ConsoleLog ''User removed from Firestore:'' (pu_id user),
                Alert ''Success'' (name user @ '' has been rejected and removed.'')], s2)))"

text \<open>The active memberships of a pair (user, project) in a store.\<close>

definition activeMemberships :: "store \<Rightarrow> string \<Rightarrow> jsval \<Rightarrow> membership list" where
  "activeMemberships s uid pid =
     filter (\<lambda>m. m_userId m = JStr uid \<and> m_projectId m = pid \<and> m_isActive m = JBool True)
       (userProjects s)"


section \<open>Example data\<close>

text \<open>
  A user who signed up through the invitation \<open>q1\<close> of the project \<open>p1\<close> and waits for approval,
  a SuperAdmin, and the entry of the pending list that the approval screen builds for the user.
\<close>

definition demo_user :: user_data where
  "demo_user = \<lparr>name = ''Asha'', phoneNumber = ''+15550100'', globalRole = JUndefined,
     isApproved = False, approvedAt = None, ud_userProjects = None\<rparr>"

definition demo_superadmin :: user_data where
  "demo_superadmin = \<lparr>name = ''Root'', phoneNumber = ''+1111111111'',
     globalRole = JStr ''superadmin'', isApproved = True, approvedAt = None,
     ud_userProjects = None\<rparr>"

definition demo_pending :: pending_user where
  "demo_pending = \<lparr>name = ''Asha'', phoneNumber = ''+15550100'', globalRole = JUndefined,
     isApproved = False, approvedAt = None, ud_userProjects = None,
     pu_id = ''u1'', qrId = ''q1'', pu_projectId = JStr ''p1''\<rparr>"

text \<open>The project document has the fields that \<open>CreateProjectModal\<close> writes.\<close>

definition demo_project :: js_object where
  "demo_project = [''name'' \<mapsto> JStr ''Apollo'', ''createdAt'' \<mapsto> JNum 1690000000000,
     ''createdBy'' \<mapsto> JStr ''root1'', ''isActive'' \<mapsto> JBool True]"

definition demo_store :: store where
  "demo_store = \<lparr>users = [''u1'' \<mapsto> demo_user, ''root1'' \<mapsto> demo_superadmin],
     projects = [''p1'' \<mapsto> demo_project],
     userProjects = [],
     qrInvitations = [''q1'' \<mapsto> \<lparr>inv_projectId = JStr ''p1'',
        pendingSignups = Some [\<lparr>su_userId = JStr ''u1'', su_timestamp = Some 5\<rparr>],
        isPending = JBool True\<rparr>]\<rparr>"

text \<open>The same store with a second user, \<open>u3\<close>, waiting in the same invitation.\<close>

definition demo_two_pending_store :: store where
  "demo_two_pending_store = \<lparr>users = [''u1'' \<mapsto> demo_user, ''root1'' \<mapsto> demo_superadmin],
     projects = [''p1'' \<mapsto> demo_project],
     userProjects = [],
     qrInvitations = [''q1'' \<mapsto> \<lparr>inv_projectId = JStr ''p1'',
        pendingSignups = Some [\<lparr>su_userId = JStr ''u1'', su_timestamp = Some 5\<rparr>,
                               \<lparr>su_userId = JStr ''u3'', su_timestamp = Some 7\<rparr>],
        isPending = JBool True\<rparr>]\<rparr>"

text \<open>A second store, in which the user \<open>u2\<close> is a project admin of \<open>p1\<close>, and the general
  channel of that project.\<close>

definition demo_admin :: user_data where
  "demo_admin = \<lparr>name = ''Ben'', phoneNumber = ''+15550101'', globalRole = JUndefined,
     isApproved = True, approvedAt = Some 1690000000500, ud_userProjects = None\<rparr>"

definition demo_admin_store :: store where
  "demo_admin_store = \<lparr>users = [''u2'' \<mapsto> demo_admin, ''root1'' \<mapsto> demo_superadmin],
     projects = [''p1'' \<mapsto> demo_project],
     userProjects = [\<lparr>m_userId = JStr ''u2'', m_projectId = JStr ''p1'',
        m_role = JStr ''project_admin'', m_isActive = JBool True, m_addedAt = JNum 1690000001000\<rparr>],
     qrInvitations = Map.empty\<rparr>"

definition demo_channel :: chat_group where
  "demo_channel = \<lparr>isChannel = JBool True, g_projectId = JStr ''p1''\<rparr>"

lemmas demo_defs = demo_user_def demo_superadmin_def demo_pending_def demo_project_def
  demo_store_def demo_two_pending_store_def demo_admin_def demo_admin_store_def demo_channel_def

lemmas approval_defs = approveUser_def rejectUser_def removeFromPending_def doc_update_def
  doc_delete_def coll_add_def updatedPendingSignups_def activeMemberships_def


section \<open>Properties of the OTP generator and validator\<close>













lemma verifyOTP_equal_codes:
  "code \<noteq> [] \<Longrightarrow>
   verifyOTP parseDate now (JStr code) (JStr code) e =
     (case e of
        Timestamp d \<Rightarrow>
          if date_gt now d then \<lparr>valid = False, message = ''OTP has expired''\<rparr>
          else \<lparr>valid = True, message = ''OTP verified successfully''\<rparr>
      | DateObj d \<Rightarrow>
          if date_gt now d then \<lparr>valid = False, message = ''OTP has expired''\<rparr>
          else \<lparr>valid = True, message = ''OTP verified successfully''\<rparr>
      | Prim v \<Rightarrow>
          (case v of
             JStr s \<Rightarrow>
               if date_gt now (parseDate s) then \<lparr>valid = False, message = ''OTP has expired''\<rparr>
               else \<lparr>valid = True, message = ''OTP verified successfully''\<rparr>
           | _ \<Rightarrow> \<lparr>valid = False, message = ''Invalid OTP expiration''\<rparr>))"
  by (simp add: verifyOTP_def split: expiry.split jsval.split)

text \<open>
  Claim C4.  The entered code equals the stored code and is not empty, and the expiry is a
  well-formed instant \<open>t\<close> in any of the three accepted representations (a timestamp object, a
  date, or a string that parses to \<open>t\<close>).  Then \<open>verifyOTP\<close> answers invalid with the message
  \<open>OTP has expired\<close> (the reason "expired") exactly when \<open>now\<close> is strictly later than \<open>t\<close>, and it
  answers valid in every other case, in particular at \<open>now = t\<close>.
\<close>

theorem verifyOTP_expired_iff_now_after_expiry:
  assumes "code \<noteq> []"
    and "e = Timestamp (Some t) \<or> e = DateObj (Some t) \<or> (\<exists>s. e = Prim (JStr s) \<and> parseDate s = Some t)"
  shows "(verifyOTP parseDate now (JStr code) (JStr code) e
            = \<lparr>valid = False, message = ''OTP has expired''\<rparr>) = (t < now)
       \<and> (verifyOTP parseDate now (JStr code) (JStr code) e
            = \<lparr>valid = True, message = ''OTP verified successfully''\<rparr>) = (now \<le> t)"
  using assms by (auto simp: verifyOTP_equal_codes date_gt_def split: if_splits)

text \<open>The scenario of the specification: the code 482913 is stored at the instant
  \<open>T = 1700000000000\<close> with the expiry \<open>getOTPExpiration T\<close>, five minutes later.  Entered at
  T + 4m59s it is valid; entered at T + 5m1s it has expired.\<close>

theorem verifyOTP_expired_iff_now_after_expiry_witness:
  "getOTPExpiration 1700000000000 = Some 1700000300000
   \<and> verifyOTP (\<lambda>s. None) 1700000299000 (JStr ''482913'') (JStr ''482913'')
        (DateObj (getOTPExpiration 1700000000000))
       = \<lparr>valid = True, message = ''OTP verified successfully''\<rparr>
   \<and> verifyOTP (\<lambda>s. None) 1700000301000 (JStr ''482913'') (JStr ''482913'')
        (DateObj (getOTPExpiration 1700000000000))
       = \<lparr>valid = False, message = ''OTP has expired''\<rparr>"
proof -
  have ex: "getOTPExpiration 1700000000000 = Some 1700000300000"
    by (simp add: getOTPExpiration_def timeClip_def)
  have ne: "''482913'' \<noteq> []" by simp
  have shape: "DateObj (getOTPExpiration 1700000000000) = Timestamp (Some 1700000300000)
      \<or> DateObj (getOTPExpiration 1700000000000) = DateObj (Some 1700000300000)
      \<or> (\<exists>s. DateObj (getOTPExpiration 1700000000000) = Prim (JStr s)
              \<and> (\<lambda>s. None) s = Some (1700000300000::int))"
    by (simp add: ex)
  note early = verifyOTP_expired_iff_now_after_expiry [OF ne shape, of 1700000299000]
  note late = verifyOTP_expired_iff_now_after_expiry [OF ne shape, of 1700000301000]
  from early have "verifyOTP (\<lambda>s. None) 1700000299000 (JStr ''482913'') (JStr ''482913'')
        (DateObj (getOTPExpiration 1700000000000))
       = \<lparr>valid = True, message = ''OTP verified successfully''\<rparr>"
    by simp
  moreover from late have "verifyOTP (\<lambda>s. None) 1700000301000 (JStr ''482913'') (JStr ''482913'')
        (DateObj (getOTPExpiration 1700000000000))
       = \<lparr>valid = False, message = ''OTP has expired''\<rparr>"
    by simp
  ultimately show ?thesis using ex by simp
qed

text \<open>
  Claim C5.  When the entered and the stored code are two different non-empty strings,
  \<open>verifyOTP\<close> answers invalid with the message \<open>Invalid OTP\<close> (the reason "mismatch"), whatever
  the expiry is (past, absent or malformed), whatever the clock reads and however strings parse
  as dates.  The comparison is equality of the two strings as they are.
\<close>

theorem verifyOTP_mismatch_regardless_of_expiry:
  assumes "entered \<noteq> []" and "stored \<noteq> []" and "entered \<noteq> stored"
  shows "verifyOTP parseDate now (JStr entered) (JStr stored) e
           = \<lparr>valid = False, message = ''Invalid OTP''\<rparr>"
  using assms by (simp add: verifyOTP_def)

theorem verifyOTP_mismatch_regardless_of_expiry_witness:
  "verifyOTP (\<lambda>s. None) 1700000060000 (JStr ''482914'') (JStr ''482913'')
       (DateObj (Some 1700000300000)) = \<lparr>valid = False, message = ''Invalid OTP''\<rparr>
   \<and> verifyOTP (\<lambda>s. None) 1700000060000 (JStr ''482914'') (JStr ''482913'')
       (Prim JNull) = \<lparr>valid = False, message = ''Invalid OTP''\<rparr>
   \<and> verifyOTP (\<lambda>s. None) 1700000060000 (JStr ''482914'') (JStr ''482913'')
       (Prim (JStr ''soon'')) = \<lparr>valid = False, message = ''Invalid OTP''\<rparr>
   \<and> verifyOTP (\<lambda>s. None) 1700000060000 (JStr ''482914'') (JStr ''482913'')
       (Timestamp (Some 0)) = \<lparr>valid = False, message = ''Invalid OTP''\<rparr>"
proof -
  have a: "''482914'' \<noteq> []" and b: "''482913'' \<noteq> []" and c: "''482914'' \<noteq> ''482913''"
    by simp_all
  show ?thesis
    using verifyOTP_mismatch_regardless_of_expiry [OF a b c, of "\<lambda>s. None" 1700000060000]
    by simp
qed

text \<open>
  Claim C10.  With equal non-empty codes and an expiry that is a string which does not parse
  to a valid date, \<open>verifyOTP\<close> answers valid: the string branch takes any string, and the
  comparison of the clock with the invalid date is false.  The answer \<open>Invalid OTP expiration\<close>
  is given exactly when the expiry is a primitive value other than a string, that is neither
  an object with \<open>toDate\<close>, nor a date, nor a string.
\<close>

theorem verifyOTP_unparsable_string_is_valid:
  assumes "code \<noteq> []"
  shows "(parseDate s = None \<longrightarrow>
            verifyOTP parseDate now (JStr code) (JStr code) (Prim (JStr s))
              = \<lparr>valid = True, message = ''OTP verified successfully''\<rparr>)
       \<and> (message (verifyOTP parseDate now (JStr code) (JStr code) e) = ''Invalid OTP expiration'')
           = (\<exists>v. e = Prim v \<and> (\<forall>s'. v \<noteq> JStr s'))"
  using assms
  by (auto simp: verifyOTP_equal_codes date_gt_def split: expiry.splits jsval.splits)

theorem verifyOTP_unparsable_string_is_valid_witness:
  "verifyOTP (\<lambda>s. None) 1700000301000 (JStr ''482913'') (JStr ''482913'') (Prim (JStr ''not a date''))
     = \<lparr>valid = True, message = ''OTP verified successfully''\<rparr>"
proof -
  have ne: "''482913'' \<noteq> []" by simp
  show ?thesis
    using verifyOTP_unparsable_string_is_valid
            [OF ne, of "\<lambda>s. None" "''not a date''" 1700000301000 "Prim JNull"]
    by simp
qed


section \<open>Properties of the role helpers\<close>

text \<open>
  Claim C2, as stated, fails.  The user \<open>root1\<close> of the example store is a SuperAdmin and the
  store holds no membership at all; \<open>getUserRoleInProject\<close>, which is given the two ids only,
  answers \<open>null\<close> for this user.  \<open>isProjectAdmin\<close> answers \<open>false\<close> for a SuperAdmin when the
  project id is the empty string.
\<close>

theorem getUserRoleInProject_superadmin_counterexample:
  "users demo_store ''root1'' = Some demo_superadmin
   \<and> globalRole demo_superadmin = JStr ''superadmin''
   \<and> userProjects demo_store = []
   \<and> getUserRoleInProject (Serving demo_store) (JStr ''root1'') (JStr ''p1'') = JNull
   \<and> isProjectAdmin (Some demo_superadmin) (JStr []) = JBool False"
  by (simp add: demo_defs getUserRoleInProject_def query_userProjects_def isProjectAdmin_def)

text \<open>
  Claim C2, amended.  For every user whose \<open>globalRole\<close> is \<open>superadmin\<close> and every non-empty
  project id, \<open>isProjectAdmin\<close> answers \<open>true\<close>, and \<open>hasAccessToProject\<close>, given the data of
  that user and a non-empty user id, answers \<open>true\<close> without reading the store; neither needs a
  membership.  \<open>getUserRoleInProject\<close> receives the two ids only and answers \<open>null\<close> when the
  pair has no active membership, for a SuperAdmin as for everybody else.
\<close>

theorem superadmin_is_admin_of_every_project:
  assumes "globalRole ud = JStr ''superadmin''" and "truthy projectId"
  shows "isProjectAdmin (Some ud) projectId = JBool True
       \<and> (truthy userId \<longrightarrow> hasAccessToProject be userId projectId (Some ud))
       \<and> ((\<forall>m \<in> set (userProjects s).
               \<not> (m_userId m = userId \<and> m_projectId m = projectId \<and> m_isActive m = JBool True))
            \<longrightarrow> getUserRoleInProject (Serving s) userId projectId = JNull)"
  using assms
  by (auto simp: isProjectAdmin_def isSuperAdmin_def hasAccessToProject_def
        getUserRoleInProject_def query_userProjects_def filter_empty_conv split: list.splits)

theorem superadmin_is_admin_of_every_project_witness:
  "isProjectAdmin (Some demo_superadmin) (JStr ''p1'') = JBool True
   \<and> hasAccessToProject (Serving demo_store) (JStr ''root1'') (JStr ''p1'') (Some demo_superadmin)
   \<and> getUserRoleInProject (Serving demo_store) (JStr ''root1'') (JStr ''p1'') = JNull"
proof -
  have g: "globalRole demo_superadmin = JStr ''superadmin''" by (simp add: demo_defs)
  have t: "truthy (JStr ''p1'')" by simp
  show ?thesis
    using superadmin_is_admin_of_every_project
            [OF g t, of "JStr ''root1''" "Serving demo_store" demo_store]
    by (simp add: demo_store_def)
qed

text \<open>
  Claim C3, as stated, fails.  When the read of the store fails, \<open>hasAccessToProject\<close> answers
  \<open>false\<close> and \<open>getUserRoleInProject\<close> answers \<open>null\<close>: the answers they give for a user without
  a membership when the read succeeds.  The caller cannot tell the two apart.
\<close>

theorem store_failure_same_as_denial_counterexample:
  "hasAccessToProject (Failing Unavailable) (JStr ''u1'') (JStr ''p1'') None = False
   \<and> hasAccessToProject (Serving demo_store) (JStr ''u1'') (JStr ''p1'') None = False
   \<and> getUserRoleInProject (Failing Unavailable) (JStr ''u1'') (JStr ''p1'') = JNull
   \<and> getUserRoleInProject (Serving demo_store) (JStr ''u1'') (JStr ''p1'') = JNull"
  by (simp add: demo_defs hasAccessToProject_def getUserRoleInProject_def query_userProjects_def)

text \<open>
  Claim C3, amended.  When the read of the store fails during an access-control lookup, the
  failure is caught and logged and the lookup fails closed: \<open>getUserRoleInProject\<close> answers
  \<open>null\<close>, and \<open>hasAccessToProject\<close> answers \<open>false\<close> unless the SuperAdmin shortcut has answered
  \<open>true\<close> before any read.  Both answers are the ones given when the read succeeds and finds no
  membership, so the result does not distinguish a failed read from a denial.
\<close>

theorem store_failure_reported_as_no_access:
  "getUserRoleInProject (Failing err) userId projectId = JNull
   \<and> getUserRoleInProject (Failing err) userId projectId
       = getUserRoleInProject (Serving (s\<lparr>userProjects := []\<rparr>)) userId projectId
   \<and> hasAccessToProject (Failing err) userId projectId userData
       = (truthy userId \<and> truthy projectId \<and> isSuperAdmin userData)
   \<and> hasAccessToProject (Failing err) userId projectId userData
       = hasAccessToProject (Serving (s\<lparr>userProjects := []\<rparr>)) userId projectId userData"
  by (auto simp: hasAccessToProject_def getUserRoleInProject_def query_userProjects_def
        isSuperAdmin_def split: option.splits)

theorem store_failure_reported_as_no_access_witness:
  "getUserRoleInProject (Failing Unavailable) (JStr ''u1'') (JStr ''p1'') = JNull
   \<and> hasAccessToProject (Failing Unavailable) (JStr ''u1'') (JStr ''p1'') (Some demo_user) = False
   \<and> hasAccessToProject (Failing Unavailable) (JStr ''root1'') (JStr ''p1'') (Some demo_superadmin)
       = True"
  using store_failure_reported_as_no_access
          [of Unavailable "JStr ''u1''" "JStr ''p1''" demo_store "Some demo_user"]
        store_failure_reported_as_no_access
          [of Unavailable "JStr ''root1''" "JStr ''p1''" demo_store "Some demo_superadmin"]
  by (simp add: isSuperAdmin_def demo_defs)


section \<open>Properties of posting in a chat room\<close>

text \<open>
  What the expression of the screen computes from its three inputs: \<open>true\<close> in a group that is
  not a channel; in a channel, \<open>true\<close> exactly for a SuperAdmin or when the list
  \<open>userProjects\<close> of the context has an entry whose field \<open>projectId\<close> is the project of the
  group and whose field \<open>role\<close> is \<open>project_admin\<close>.
\<close>

lemma canSendMessages_channel_rule:
  "(isChannel g = JBool False \<longrightarrow> canSendMessages userData ups (Some g) = JBool True)
   \<and> (isChannel g = JBool True \<longrightarrow>
        canSendMessages userData ups (Some g)
          = JBool ((\<exists>ud. userData = Some ud \<and> globalRole ud = JStr ''superadmin'')
                 \<or> (\<exists>l. ups = Some l \<and>
                      (\<exists>up \<in> set l. field up ''projectId'' = g_projectId g
                                   \<and> field up ''role'' = JStr ''project_admin''))))"
  by (auto simp: canSendMessages_def chat_isProjectAdmin_def chat_isSuperAdmin_def js_or_def
        list_ex_iff split: option.splits)

text \<open>
  Claim C6: in a channel, a user who holds the role \<open>project_admin\<close> in the project of the
  channel may post.  The code does not do that.  In the second example store the user \<open>u2\<close> has
  an active membership with the role \<open>project_admin\<close> in the project \<open>p1\<close>, and the role lookup
  says so.  The list that the context holds for this user has one entry, with the fields \<open>id\<close>
  and \<open>userRole\<close>; the screen reads the fields \<open>projectId\<close> and \<open>role\<close>, which the entry does not
  have, and \<open>canSendMessages\<close> is \<open>false\<close> in the channel of \<open>p1\<close>.  It is \<open>false\<close> as well when
  the context provides no list.
\<close>

theorem project_admin_cannot_post_in_channel:
  "getUserRoleInProject (Serving demo_admin_store) (JStr ''u2'') (JStr ''p1'') = JStr ''project_admin''
   \<and> map (\<lambda>e. (field e ''id'', field e ''userRole'', field e ''projectId'', field e ''role''))
        (authUserProjects sortByName (Serving demo_admin_store) demo_admin (JStr ''u2''))
       = [(JStr ''p1'', JStr ''project_admin'', JUndefined, JUndefined)]
   \<and> canSendMessages (Some demo_admin)
        (Some (authUserProjects sortByName (Serving demo_admin_store) demo_admin (JStr ''u2'')))
        (Some demo_channel) = JBool False
   \<and> canSendMessages (Some demo_admin) None (Some demo_channel) = JBool False"
  by (simp add: demo_defs getUserRoleInProject_def query_userProjects_def authUserProjects_def
        getUserProjects_def isSuperAdmin_def field_def canSendMessages_def chat_isProjectAdmin_def
        chat_isSuperAdmin_def js_or_def)


theorem project_admin_cannot_post_in_channel_witness:
  "getUserRoleInProject (Serving demo_admin_store) (JStr ''u2'') (JStr ''p1'') = JStr ''project_admin''
   \<and> canSendMessages (Some demo_admin)
        (Some (authUserProjects (\<lambda>l. Inr l) (Serving demo_admin_store) demo_admin (JStr ''u2'')))
        (Some demo_channel) = JBool False"
  using project_admin_cannot_post_in_channel [of "\<lambda>l. Inr l"] by simp


section \<open>Properties of approving and rejecting\<close>


lemma removeFromPending_total: "\<exists>s'. removeFromPending u s = Inr s'"
  by (auto simp: removeFromPending_def doc_update_def split: option.splits)

lemma removeFromPending_users: "removeFromPending u s = Inr s' \<Longrightarrow> users s' = users s"
  by (auto simp: removeFromPending_def doc_update_def split: option.splits)

lemma removeFromPending_userProjects:
  "removeFromPending u s = Inr s' \<Longrightarrow> userProjects s' = userProjects s"
  by (auto simp: removeFromPending_def doc_update_def split: option.splits)







text \<open>Every approval of an entry with a project, of a user whose document exists, adds one
  active membership of the pair, whatever memberships the pair has already.\<close>

lemma approveUser_adds_membership:
  assumes "users s (pu_id u) \<noteq> None" and "truthy (pu_projectId u)"
  shows "length (activeMemberships (snd (approveUser now u s)) (pu_id u) (pu_projectId u))
           = Suc (length (activeMemberships s (pu_id u) (pu_projectId u)))"
proof -
  from assms(1) obtain d where d: "users s (pu_id u) = Some d" by auto
  define s2 where "s2 =
    s\<lparr>users := (users s)(pu_id u \<mapsto> d\<lparr>isApproved := True, approvedAt := Some now\<rparr>),
      userProjects := coll_add (userProjects s)
                \<lparr>m_userId = JStr (pu_id u), m_projectId = pu_projectId u,
                 m_role = JStr ''user'', m_isActive = JBool True, m_addedAt = JNum now\<rparr>\<rparr>"
  obtain s3 where s3: "removeFromPending u s2 = Inr s3" using removeFromPending_total by blast
  have "snd (approveUser now u s) = s3"
    using d s3 assms(2) by (simp add: approveUser_def doc_update_def s2_def Let_def)
  moreover have "userProjects s3 = userProjects s2"
    using s3 by (rule removeFromPending_userProjects)
  ultimately show ?thesis
    by (simp add: activeMemberships_def s2_def coll_add_def)
qed

text \<open>
  Claim C1: a second approval of the same pending entry is a no-op and leaves one active
  membership of the pair.  The code does not do that.  In the example store the user \<open>u1\<close>
  waits in the invitation \<open>q1\<close> of the project \<open>p1\<close>.  The first approval creates the
  membership; the second approval of the same entry reports success again and adds a second
  active membership of (\<open>u1\<close>, \<open>p1\<close>).
\<close>

theorem approveUser_twice_two_memberships:
  "fst (approveUser 20 demo_pending (snd (approveUser 10 demo_pending demo_store)))
     = [Alert ''Success'' ''Asha has been approved!'']
   \<and> length (activeMemberships (snd (approveUser 10 demo_pending demo_store)) ''u1'' (JStr ''p1'')) = 1
   \<and> length (activeMemberships
        (snd (approveUser 20 demo_pending (snd (approveUser 10 demo_pending demo_store))))
        ''u1'' (JStr ''p1'')) = 2"
  by (simp add: approval_defs demo_defs Let_def)





text \<open>
  Claim C9.  A rejection deletes the user document.  Every later approval of an entry of that
  user, and every approval in any store without the user document, fails: the update of the
  user document is refused with \<open>not-found\<close>, the error is logged, the failure alert is shown,
  and the store is left as it was, so no user is marked approved and no membership is created.
\<close>

theorem approve_after_reject_fails_not_found:
  "users (snd (rejectUser u s)) (pu_id u) = None
   \<and> (pu_id u' = pu_id u \<longrightarrow>
        approveUser now u' (snd (rejectUser u s))
          = ([ConsoleError ''Error approving user:'' NotFound,
              Alert ''Error'' ''Failed to approve user''], snd (rejectUser u s)))
   \<and> (users s' (pu_id u') = None \<longrightarrow>
        approveUser now u' s'
          = ([ConsoleError ''Error approving user:'' NotFound,
              Alert ''Error'' ''Failed to approve user''], s'))"
proof -
  have gen: "approveUser now u' t
          = ([ConsoleError ''Error approving user:'' NotFound,
              Alert ''Error'' ''Failed to approve user''], t)"
    if "users t (pu_id u') = None" for t
    using that by (simp add: approveUser_def doc_update_def)
  obtain s2 where s2: "removeFromPending u (s\<lparr>users := doc_delete (users s) (pu_id u)\<rparr>) = Inr s2"
    using removeFromPending_total by blast
  then have r: "snd (rejectUser u s) = s2" by (simp add: rejectUser_def Let_def)
  have "users s2 = doc_delete (users s) (pu_id u)"
    using removeFromPending_users [OF s2] by simp
  then have gone: "users (snd (rejectUser u s)) (pu_id u) = None"
    using r by (simp add: doc_delete_def)
  have after: "approveUser now u' (snd (rejectUser u s))
          = ([ConsoleError ''Error approving user:'' NotFound,
              Alert ''Error'' ''Failed to approve user''], snd (rejectUser u s))"
    if "pu_id u' = pu_id u"
    using gen [of "snd (rejectUser u s)"] gone that by simp
  from gone after gen [of s'] show ?thesis by blast
qed

theorem approve_after_reject_fails_not_found_witness:
  "users (snd (rejectUser demo_pending demo_store)) ''u1'' = None
   \<and> fst (approveUser 20 demo_pending (snd (rejectUser demo_pending demo_store)))
       = [ConsoleError ''Error approving user:'' NotFound, Alert ''Error'' ''Failed to approve user'']
   \<and> snd (approveUser 20 demo_pending (snd (rejectUser demo_pending demo_store)))
       = snd (rejectUser demo_pending demo_store)
   \<and> userProjects (snd (approveUser 20 demo_pending (snd (rejectUser demo_pending demo_store)))) = []"
proof -
  have i: "pu_id demo_pending = ''u1''" by (simp add: demo_defs)
  have m: "userProjects (snd (rejectUser demo_pending demo_store)) = []"
    by (simp add: approval_defs demo_defs Let_def)
  note w = approve_after_reject_fails_not_found
         [of demo_pending demo_store demo_pending 20 demo_store]
  from w have 1: "users (snd (rejectUser demo_pending demo_store)) (pu_id demo_pending) = None"
    by (rule conjunct1)
  from w have 2: "approveUser 20 demo_pending (snd (rejectUser demo_pending demo_store))
          = ([ConsoleError ''Error approving user:'' NotFound,
              Alert ''Error'' ''Failed to approve user''], snd (rejectUser demo_pending demo_store))"
    by blast
  show ?thesis using 1 i m by (simp add: 2)
qed

end
